theory Spec2Isabelle
  imports Main "HOL-Library.Multiset"
begin

section \<open>Data model (lib/supabase-server)\<close>

text \<open>
  The two interfaces of the data-access module. A timestamp is kept as the instant it
  denotes (the store compares timestamps as instants; the client only passes them on).
  The fields \<open>term\<close> and \<open>definition\<close> of a flashcard carry a prime, since both words
  are reserved. The columns of a table are the fields of the row records; the optional
  fields \<open>flashcard_count\<close> and \<open>is_starred\<close> are derived by the client and extend the
  row, \<open>None\<close> standing for an absent (undefined) field.
\<close>

type_synonym timestamp = nat

record study_set_row =
  id :: string
  user_id :: string
  title :: string
  description :: "string option"
  created_at :: timestamp
  updated_at :: timestamp

record StudySet = study_set_row +
  flashcard_count :: "nat option"

record flashcard_row =
  id :: string
  study_set_id :: string
  term' :: string
  definition' :: string
  position :: int
  created_at :: timestamp

record Flashcard = flashcard_row +
  is_starred :: "bool option"

text \<open>A row of \<open>starred_flashcards\<close> is the pair of its two columns.\<close>

type_synonym starred_row = "string \<times> string"

abbreviation star_user_id :: "starred_row \<Rightarrow> string" where
  "star_user_id \<equiv> fst"

abbreviation flashcard_id :: "starred_row \<Rightarrow> string" where
  "flashcard_id \<equiv> snd"

section \<open>The remote data store\<close>

text \<open>Modelled from the spec: the hosted store is an external collaborator, reached through
  the client library; the repository holds no code of it. Section 6 of the specification
  gives its three collections and its query shapes (filter by equality, order by a
  column, count-only queries, single-row fetch, insert with returning, delete by filter),
  section 7 its failures. A request never throws: it answers with a response whose
  \<open>error\<close> field is set when it failed, and a failed request leaves the tables as they
  were. The store keeps the rows of a table in a list, so that two equal rows can be told
  from one.
\<close>

datatype store_error = RequestFailed string | NotSingleRow

record 'a response =
  data :: "'a option"
  error :: "store_error option"
  count :: "nat option"

record db =
  study_sets :: "study_set_row list"
  flashcards :: "flashcard_row list"
  starred_flashcards :: "starred_row list"

text \<open>Modelled from the spec: the outcomes of the requests that one call of the module
  issues, in the order in which it issues them. \<open>Some e\<close> lets the request fail with
  \<open>e\<close>; a request beyond the end of the list is served.
\<close>

type_synonym faults = "store_error option list"

definition fault_at :: "faults \<Rightarrow> nat \<Rightarrow> store_error option" where
  "fault_at fs i = (if i < length fs then fs ! i else None)"

definition failed :: "store_error \<Rightarrow> 'a response" where
  "failed e = \<lparr>data = None, error = Some e, count = None\<rparr>"

definition served :: "'a \<Rightarrow> 'a response" where
  "served x = \<lparr>data = Some x, error = None, count = None\<rparr>"

definition done_without_data :: "'a response" where
  "done_without_data = \<lparr>data = None, error = None, count = None\<rparr>"

definition counted :: "nat \<Rightarrow> 'a response" where
  "counted n = \<lparr>data = None, error = None, count = Some n\<rparr>"

text \<open>Modelled from the spec: \<open>from('study_sets').select('*').eq('user_id', u).order('updated_at', descending)\<close>.\<close>

definition select_study_sets_by_user ::
  "store_error option \<Rightarrow> db \<Rightarrow> string \<Rightarrow> study_set_row list response" where
  "select_study_sets_by_user f d u =
     (case f of
        Some e \<Rightarrow> failed e
      | None \<Rightarrow> served (rev (sort_key updated_at (filter (\<lambda>r. user_id r = u) (study_sets d)))))"

text \<open>Modelled from the spec: the count-only query \<open>from('flashcards').select('*', count).eq('study_set_id', s)\<close>.\<close>

definition count_flashcards_of_set ::
  "store_error option \<Rightarrow> db \<Rightarrow> string \<Rightarrow> unit response" where
  "count_flashcards_of_set f d s =
     (case f of
        Some e \<Rightarrow> failed e
      | None \<Rightarrow> counted (length (filter (\<lambda>c. study_set_id c = s) (flashcards d))))"

text \<open>Modelled from the spec: \<open>from('flashcards').select('*').eq('study_set_id', s).order('position', ascending)\<close>.\<close>

definition select_flashcards_of_set ::
  "store_error option \<Rightarrow> db \<Rightarrow> string \<Rightarrow> flashcard_row list response" where
  "select_flashcards_of_set f d s =
     (case f of
        Some e \<Rightarrow> failed e
      | None \<Rightarrow> served (sort_key position (filter (\<lambda>c. study_set_id c = s) (flashcards d))))"

text \<open>Modelled from the spec: \<open>from('starred_flashcards').select('flashcard_id').eq('user_id', u)\<close>.\<close>

definition select_starred_of_user ::
  "store_error option \<Rightarrow> db \<Rightarrow> string \<Rightarrow> starred_row list response" where
  "select_starred_of_user f d u =
     (case f of
        Some e \<Rightarrow> failed e
      | None \<Rightarrow> served (filter (\<lambda>r. star_user_id r = u) (starred_flashcards d)))"

text \<open>Modelled from the spec: the single-row fetch
  \<open>from('starred_flashcards').select('*').eq('user_id', u).eq('flashcard_id', c).single()\<close>.
  It answers with the row when exactly one row matches, and with an error and no data
  when none or several do.
\<close>

definition select_single_starred ::
  "store_error option \<Rightarrow> db \<Rightarrow> string \<Rightarrow> string \<Rightarrow> starred_row response" where
  "select_single_starred f d u c =
     (case f of
        Some e \<Rightarrow> failed e
      | None \<Rightarrow>
          (case filter (\<lambda>r. star_user_id r = u \<and> flashcard_id r = c) (starred_flashcards d) of
             [r] \<Rightarrow> served r
           | _ \<Rightarrow> failed NotSingleRow))"

text \<open>Modelled from the spec: \<open>from('starred_flashcards').delete().eq('user_id', u).eq('flashcard_id', c)\<close>.\<close>

definition delete_starred ::
  "store_error option \<Rightarrow> db \<Rightarrow> string \<Rightarrow> string \<Rightarrow> unit response \<times> db" where
  "delete_starred f d u c =
     (case f of
        Some e \<Rightarrow> (failed e, d)
      | None \<Rightarrow>
          (done_without_data,
           d\<lparr>starred_flashcards :=
               filter (\<lambda>r. \<not> (star_user_id r = u \<and> flashcard_id r = c)) (starred_flashcards d)\<rparr>))"

text \<open>Modelled from the spec: \<open>from('starred_flashcards').insert(row)\<close>.\<close>

definition insert_starred ::
  "store_error option \<Rightarrow> db \<Rightarrow> starred_row \<Rightarrow> unit response \<times> db" where
  "insert_starred f d r =
     (case f of
        Some e \<Rightarrow> (failed e, d)
      | None \<Rightarrow> (done_without_data, d\<lparr>starred_flashcards := starred_flashcards d @ [r]\<rparr>))"

text \<open>Modelled from the spec: \<open>from('flashcards').delete().eq('study_set_id', s)\<close>.\<close>

definition delete_flashcards_of_set ::
  "store_error option \<Rightarrow> db \<Rightarrow> string \<Rightarrow> unit response \<times> db" where
  "delete_flashcards_of_set f d s =
     (case f of
        Some e \<Rightarrow> (failed e, d)
      | None \<Rightarrow>
          (done_without_data,
           d\<lparr>flashcards := filter (\<lambda>c. study_set_id c \<noteq> s) (flashcards d)\<rparr>))"

text \<open>Modelled from the spec: \<open>from('study_sets').delete().eq('id', s)\<close>.\<close>

definition delete_study_set_by_id ::
  "store_error option \<Rightarrow> db \<Rightarrow> string \<Rightarrow> unit response \<times> db" where
  "delete_study_set_by_id f d s =
     (case f of
        Some e \<Rightarrow> (failed e, d)
      | None \<Rightarrow>
          (done_without_data,
           d\<lparr>study_sets := filter (\<lambda>r. study_set_row.id r \<noteq> s) (study_sets d)\<rparr>))"

text \<open>Modelled from the spec: \<open>from('study_sets').insert(row).select().single()\<close>, the insert
  with returning. The store fills the columns the client leaves out: \<open>new_id\<close> and
  \<open>now\<close> are the values it gives to \<open>id\<close> and to the two timestamps.
\<close>

definition insert_study_set ::
  "store_error option \<Rightarrow> string \<times> timestamp \<Rightarrow> db \<Rightarrow> string \<Rightarrow> string \<Rightarrow> string option
     \<Rightarrow> study_set_row response \<times> db" where
  "insert_study_set f gen d u t de =
     (case f of
        Some e \<Rightarrow> (failed e, d)
      | None \<Rightarrow>
          (let r = \<lparr>study_set_row.id = fst gen, user_id = u, title = t, description = de,
                    study_set_row.created_at = snd gen, updated_at = snd gen\<rparr>
           in (served r, d\<lparr>study_sets := study_sets d @ [r]\<rparr>)))"

section \<open>The data-access module (lib/supabase-server)\<close>

text \<open>
  Each function takes the outcomes \<open>fs\<close> of its requests and the store \<open>d\<close>; a function
  that writes returns the store it leaves behind. A \<open>throw\<close> inside \<open>try\<close> is the branch
  that leads to the \<open>catch\<close> block; what \<open>console.error\<close> prints is not part of a result
  and is left out. A string is truthy when it is present and not empty.
\<close>

definition truthy :: "string option \<Rightarrow> bool" where
  "truthy s = (case s of None \<Rightarrow> False | Some x \<Rightarrow> x \<noteq> [])"

text \<open>\<open>x || null\<close> on an optional string.\<close>

definition or_null :: "string option \<Rightarrow> string option" where
  "or_null s = (if truthy s then s else None)"

text \<open>\<open>count || 0\<close> on a count that may be null.\<close>

definition or_zero :: "nat option \<Rightarrow> nat" where
  "or_zero c = (case c of None \<Rightarrow> 0 | Some n \<Rightarrow> n)"

text \<open>\<open>xs || []\<close> on an array that may be null.\<close>

definition or_empty :: "'a list option \<Rightarrow> 'a list" where
  "or_empty xs = (case xs of None \<Rightarrow> [] | Some ys \<Rightarrow> ys)"

text \<open>
  \<open>getStudySets\<close>: the request of the user's sets is request 0; the count query of the
  set at index \<open>i\<close> of the answer is request \<open>i + 1\<close> (\<open>map\<close> starts them in the order of
  the array). Only \<open>count\<close> is read from the answer of a count query.
\<close>

definition getStudySets :: "faults \<Rightarrow> db \<Rightarrow> string \<Rightarrow> StudySet list" where
  "getStudySets fs d userId =
     (let r = select_study_sets_by_user (fault_at fs 0) d userId in
      case error r of
        Some e \<Rightarrow> []
      | None \<Rightarrow>
          map (\<lambda>(i, set').
                 let c = count (count_flashcards_of_set (fault_at fs (Suc i)) d
                                  (study_set_row.id set'))
                 in study_set_row.extend set' (StudySet.fields (Some (or_zero c))))
              (enumerate 0 (or_empty (data r))))"

text \<open>
  \<open>getFlashcards\<close>: the request of the cards is request 0, the request of the user's
  starred rows, when it is made, request 1. Only \<open>data\<close> is read from its answer.
\<close>

definition getFlashcards :: "faults \<Rightarrow> db \<Rightarrow> string \<Rightarrow> string option \<Rightarrow> Flashcard list" where
  "getFlashcards fs d studySetId userId =
     (let r = select_flashcards_of_set (fault_at fs 0) d studySetId in
      case error r of
        Some e \<Rightarrow> []
      | None \<Rightarrow>
          (case (userId, data r) of
             (Some u, Some cards) \<Rightarrow>
               if truthy userId then
                 (let starredCards = data (select_starred_of_user (fault_at fs 1) d u);
                      starredIds = set (or_empty (map_option (map flashcard_id) starredCards))
                  in map (\<lambda>card. flashcard_row.extend card
                                    (Flashcard.fields (Some (flashcard_row.id card \<in> starredIds))))
                         cards)
               else map (\<lambda>card. flashcard_row.extend card (Flashcard.fields None)) cards
           | _ \<Rightarrow> map (\<lambda>card. flashcard_row.extend card (Flashcard.fields None))
                      (or_empty (data r))))"

text \<open>
  \<open>createStudySet\<close>: one request, the insert with returning. The created set comes back
  as the store returns it, without a flashcard count.
\<close>

definition createStudySet ::
  "faults \<Rightarrow> string \<times> timestamp \<Rightarrow> db \<Rightarrow> string \<Rightarrow> string \<Rightarrow> string option
     \<Rightarrow> StudySet option \<times> db" where
  "createStudySet fs gen d userId title0 description0 =
     (let (r, d') = insert_study_set (fault_at fs 0) gen d userId title0 (or_null description0) in
      case error r of
        Some e \<Rightarrow> (None, d')
      | None \<Rightarrow> (map_option (\<lambda>row. study_set_row.extend row (StudySet.fields None)) (data r), d'))"

text \<open>
  \<open>deleteStudySet\<close>: request 0 deletes the cards, and its answer is dropped; request 1
  deletes the set.
\<close>

definition deleteStudySet :: "faults \<Rightarrow> db \<Rightarrow> string \<Rightarrow> bool \<times> db" where
  "deleteStudySet fs d studySetId =
     (let (r0, d0) = delete_flashcards_of_set (fault_at fs 0) d studySetId;
          (r1, d1) = delete_study_set_by_id (fault_at fs 1) d0 studySetId
      in case error r1 of
           Some e \<Rightarrow> (False, d1)
         | None \<Rightarrow> (True, d1))"

text \<open>
  \<open>toggleStar\<close>: request 0 is the single-row fetch, of whose answer only \<open>data\<close> is
  read; request 1 is the delete or the insert. The \<open>catch\<close> block throws the error
  again, so the caller receives it: \<open>Inl e\<close>.
\<close>

definition toggleStar :: "faults \<Rightarrow> db \<Rightarrow> string \<Rightarrow> string \<Rightarrow> (store_error + bool) \<times> db" where
  "toggleStar fs d userId flashcardId =
     (let existing = data (select_single_starred (fault_at fs 0) d userId flashcardId) in
      case existing of
        Some row \<Rightarrow>
          (let (r, d') = delete_starred (fault_at fs 1) d userId flashcardId in
           case error r of
             Some e \<Rightarrow> (Inl e, d')
           | None \<Rightarrow> (Inr False, d'))
      | None \<Rightarrow>
          (let (r, d') = insert_starred (fault_at fs 1) d (userId, flashcardId) in
           case error r of
             Some e \<Rightarrow> (Inl e, d')
           | None \<Rightarrow> (Inr True, d')))"


text \<open>The starred flag of a card for a user: the presence of a row for the pair.\<close>

definition starred :: "db \<Rightarrow> string \<Rightarrow> string \<Rightarrow> bool" where
  "starred d u c = ((u, c) \<in> set (starred_flashcards d))"

text \<open>The number of association rows of a pair.\<close>

definition star_rows :: "db \<Rightarrow> string \<Rightarrow> string \<Rightarrow> nat" where
  "star_rows d u c = count_list (starred_flashcards d) (u, c)"

section \<open>The study-session page (app/study-set/[id]/page)\<close>

text \<open>
  The state of the page that the three handlers touch. A JavaScript number that holds
  an index is an \<open>int\<close>; \<open>%\<close> is the remainder of the truncating division, which has the
  sign of the dividend; the handlers reach it with a divisor that is not zero, since
  they return first when there is no flashcard.
\<close>

definition js_rem :: "int \<Rightarrow> int \<Rightarrow> int" where
  "js_rem a b = sgn a * (\<bar>a\<bar> mod \<bar>b\<bar>)"

record session =
  userId :: "string option"
  currentCardIndex :: int
  isFlipped :: bool

text \<open>
  The three handlers are made anew in every render and close over the values of that
  render: \<open>handleFlipCard\<close> over its \<open>isFlipped\<close> (here \<open>flipped\<close>), the other two over
  its \<open>flashcards\<close> (here \<open>cards\<close>). The index is set by a function of the index the page
  has when the update is applied, so it is read from the state \<open>s\<close>.
\<close>

definition handleFlipCard :: "bool \<Rightarrow> session \<Rightarrow> session" where
  "handleFlipCard flipped s = s\<lparr>isFlipped := \<not> flipped\<rparr>"

definition handleNextCard :: "'a list \<Rightarrow> session \<Rightarrow> session" where
  "handleNextCard cards s =
     (if length cards = 0 then s
      else (s\<lparr>isFlipped := False\<rparr>)
             \<lparr>currentCardIndex := js_rem (currentCardIndex s + 1) (int (length cards))\<rparr>)"

definition handlePrevCard :: "'a list \<Rightarrow> session \<Rightarrow> session" where
  "handlePrevCard cards s =
     (if length cards = 0 then s
      else (s\<lparr>isFlipped := False\<rparr>)
             \<lparr>currentCardIndex :=
                js_rem (currentCardIndex s - 1 + int (length cards)) (int (length cards))\<rparr>)"

text \<open>
  The keydown listener. The effect that adds it has the dependencies
  \<open>[currentCardIndex, isFlipped]\<close>: it runs after the first render and after every render
  in which one of the two differs from its value at the last run, and then replaces
  the listener by one that calls the handlers of that render. The listener is therefore
  known by the two dependencies and the \<open>flashcards\<close> of the render that added it; the
  \<open>isFlipped\<close> its handlers hold is the dependency.
\<close>

record 'a registered =
  dep_index :: int
  dep_flipped :: bool
  captured_flashcards :: "'a list"

text \<open>
  The page: the state, the \<open>flashcards\<close> of the query (the empty list until an answer is
  there) and the keydown listener.
\<close>

record 'a page =
  state :: session
  flashcards_data :: "'a list"
  keydown :: "'a registered"

definition register_keydown :: "'a page \<Rightarrow> 'a page" where
  "register_keydown p =
     (if dep_index (keydown p) = currentCardIndex (state p)
         \<and> dep_flipped (keydown p) = isFlipped (state p)
      then p
      else p\<lparr>keydown := \<lparr>dep_index = currentCardIndex (state p),
                          dep_flipped = isFlipped (state p),
                          captured_flashcards = flashcards_data p\<rparr>\<rparr>)"

text \<open>
  What happens to the page: \<open>checkAuth\<close> sets the user id, the query delivers a list of
  flashcards, the user clicks (the card to flip it, or one of the two buttons) or presses
  a key (space or enter to flip, the right and left arrows for next and previous).
\<close>

datatype op = Flip | Next | Previous

datatype 'a event = Authenticated string | Loaded "'a list" | Click op | Key op

fun handler :: "op \<Rightarrow> bool \<Rightarrow> 'a list \<Rightarrow> session \<Rightarrow> session" where
  "handler Flip flipped cards s = handleFlipCard flipped s"
| "handler Next flipped cards s = handleNextCard cards s"
| "handler Previous flipped cards s = handlePrevCard cards s"

text \<open>
  The card and the buttons are rendered only with a user id and at least one flashcard,
  and the two buttons are disabled with at most one flashcard.
\<close>

definition enabled :: "op \<Rightarrow> 'a page \<Rightarrow> bool" where
  "enabled c p =
     (truthy (userId (state p)) \<and> length (flashcards_data p) \<noteq> 0
      \<and> (c = Flip \<or> \<not> length (flashcards_data p) \<le> 1))"

text \<open>
  One event. A click runs the handler of the render that is on the screen, a key the
  handler that the listener holds. Every change is followed by a render and by the
  effect.
\<close>

fun step :: "'a event \<Rightarrow> 'a page \<Rightarrow> 'a page" where
  "step (Authenticated u) p = register_keydown (p\<lparr>state := (state p)\<lparr>userId := Some u\<rparr>\<rparr>)"
| "step (Loaded cs) p = register_keydown (p\<lparr>flashcards_data := cs\<rparr>)"
| "step (Click c) p =
     register_keydown
       (if enabled c p
        then p\<lparr>state := handler c (isFlipped (state p)) (flashcards_data p) (state p)\<rparr>
        else p)"
| "step (Key k) p =
     register_keydown
       (p\<lparr>state := handler k (dep_flipped (keydown p)) (captured_flashcards (keydown p))
                      (state p)\<rparr>)"

fun run :: "'a event list \<Rightarrow> 'a page \<Rightarrow> 'a page" where
  "run [] p = p"
| "run (e # es) p = run es (step e p)"

text \<open>The state in which the page starts: \<open>useState(null)\<close>, \<open>useState(0)\<close>, \<open>useState(false)\<close>.\<close>

definition initial :: session where
  "initial = \<lparr>userId = None, currentCardIndex = 0, isFlipped = False\<rparr>"

text \<open>The page after its first render and the first run of the effect.\<close>

definition mounted :: "'a page" where
  "mounted = \<lparr>state = initial, flashcards_data = [],
              keydown = \<lparr>dep_index = 0, dep_flipped = False, captured_flashcards = []\<rparr>\<rparr>"

text \<open>Every list that the query delivers in a run of events has \<open>n\<close> flashcards.\<close>

fun loads :: "nat \<Rightarrow> 'a event \<Rightarrow> bool" where
  "loads n (Loaded cs) = (length cs = n)"
| "loads n e = True"

section \<open>Properties of the study-session page\<close>

lemma js_rem_nonneg: "0 \<le> a \<Longrightarrow> 0 < b \<Longrightarrow> js_rem a b = a mod b"
  by (simp add: js_rem_def sgn_if)

lemma next_index:
  assumes "cards \<noteq> []" "0 \<le> currentCardIndex s"
  shows "currentCardIndex (handleNextCard cards s) = (currentCardIndex s + 1) mod int (length cards)"
  using assms by (simp add: handleNextCard_def js_rem_nonneg)

lemma prev_index:
  assumes "cards \<noteq> []" "0 \<le> currentCardIndex s"
  shows "currentCardIndex (handlePrevCard cards s)
           = (currentCardIndex s - 1 + int (length cards)) mod int (length cards)"
proof -
  have "0 < int (length cards)" using assms by simp
  then have "0 \<le> currentCardIndex s - 1 + int (length cards)" using assms by linarith
  then show ?thesis using assms by (simp add: handlePrevCard_def js_rem_nonneg)
qed

lemma register_keeps:
  "state (register_keydown p) = state p"
  "flashcards_data (register_keydown p) = flashcards_data p"
  by (simp_all add: register_keydown_def)

lemma register_syncs:
  "dep_index (keydown (register_keydown p)) = currentCardIndex (state p)"
  "dep_flipped (keydown (register_keydown p)) = isFlipped (state p)"
  by (simp_all add: register_keydown_def)

lemma register_captured:
  "captured_flashcards (keydown (register_keydown p)) = captured_flashcards (keydown p)
   \<or> captured_flashcards (keydown (register_keydown p)) = flashcards_data p"
  by (simp add: register_keydown_def)

lemma step_syncs:
  "dep_index (keydown (step e p)) = currentCardIndex (state (step e p))
   \<and> dep_flipped (keydown (step e p)) = isFlipped (state (step e p))"
  by (cases e) (simp_all add: register_syncs register_keeps)

lemma run_syncs:
  assumes "dep_index (keydown p) = currentCardIndex (state p)"
      and "dep_flipped (keydown p) = isFlipped (state p)"
  shows "dep_index (keydown (run es p)) = currentCardIndex (state (run es p))
       \<and> dep_flipped (keydown (run es p)) = isFlipped (state (run es p))"
  using assms
proof (induction es arbitrary: p)
  case Nil
  then show ?case by simp
next
  case (Cons e es)
  show ?case using Cons.IH [of "step e p"] step_syncs [of e p] by simp
qed

lemma mounted_syncs:
  "dep_index (keydown (run es mounted)) = currentCardIndex (state (run es mounted))
   \<and> dep_flipped (keydown (run es mounted)) = isFlipped (state (run es mounted))"
  by (rule run_syncs) (simp_all add: mounted_def initial_def)

lemma key_flip:
  assumes "dep_flipped (keydown p) = isFlipped (state p)"
  shows "state (step (Key Flip) p) = (state p)\<lparr>isFlipped := \<not> isFlipped (state p)\<rparr>"
  using assms by (simp add: register_keeps handleFlipCard_def)

lemma click_flip:
  assumes "enabled Flip p"
  shows "state (step (Click Flip) p) = (state p)\<lparr>isFlipped := \<not> isFlipped (state p)\<rparr>"
  using assms by (simp add: register_keeps handleFlipCard_def)

lemma flip_keeps_data:
  "flashcards_data (step (Key Flip) p) = flashcards_data p"
  "flashcards_data (step (Click Flip) p) = flashcards_data p"
  by (simp_all add: register_keeps)

lemma enabled_after_flip:
  "enabled Flip p \<Longrightarrow> enabled Flip (step (Click Flip) p)"
  by (simp add: enabled_def register_keeps handleFlipCard_def)

text \<open>
  C7, as amended. In every state the page can reach, two flips (two key presses, or
  two clicks on the card) give the state back, and one flip changes \<open>isFlipped\<close> only.
  A next or previous whose handler holds at least one flashcard, as the handlers of the
  two buttons always do, leaves \<open>isFlipped\<close> false whatever it was; one whose handler
  holds no flashcard returns before touching the state, so \<open>isFlipped\<close> stays as it was.
\<close>

theorem flip_twice_and_navigation_reset:
  "state (step (Key Flip) (step (Key Flip) (run es mounted))) = state (run es mounted)
   \<and> (enabled Flip (run es mounted) \<longrightarrow>
        state (step (Click Flip) (step (Click Flip) (run es mounted))) = state (run es mounted))
   \<and> state (step (Key Flip) (run es mounted))
       = (state (run es mounted))\<lparr>isFlipped := \<not> isFlipped (state (run es mounted))\<rparr>
   \<and> flashcards_data (step (Key Flip) (run es mounted)) = flashcards_data (run es mounted)
   \<and> (c \<noteq> Flip \<and> enabled c (run es mounted) \<longrightarrow>
        \<not> isFlipped (state (step (Click c) (run es mounted))))
   \<and> (c \<noteq> Flip \<and> captured_flashcards (keydown (run es mounted)) \<noteq> [] \<longrightarrow>
        \<not> isFlipped (state (step (Key c) (run es mounted))))
   \<and> (c \<noteq> Flip \<and> captured_flashcards (keydown (run es mounted)) = [] \<longrightarrow>
        state (step (Key c) (run es mounted)) = state (run es mounted))"
proof -
  let ?p = "run es mounted"
  have sy: "dep_flipped (keydown ?p) = isFlipped (state ?p)" using mounted_syncs by blast
  have k1: "state (step (Key Flip) ?p) = (state ?p)\<lparr>isFlipped := \<not> isFlipped (state ?p)\<rparr>"
    using sy by (rule key_flip)
  have sy1: "dep_flipped (keydown (step (Key Flip) ?p)) = isFlipped (state (step (Key Flip) ?p))"
    using step_syncs by blast
  have k2: "state (step (Key Flip) (step (Key Flip) ?p)) = state ?p"
    unfolding key_flip [OF sy1] k1 by simp
  have c2: "state (step (Click Flip) (step (Click Flip) ?p)) = state ?p" if en: "enabled Flip ?p"
    unfolding click_flip [OF enabled_after_flip [OF en]] click_flip [OF en] by simp
  have n1: "\<not> isFlipped (state (step (Click c) ?p))" if "c \<noteq> Flip \<and> enabled c ?p"
    using that
    by (cases c) (simp_all add: register_keeps enabled_def handleNextCard_def handlePrevCard_def)
  have n2: "\<not> isFlipped (state (step (Key c) ?p))"
    if "c \<noteq> Flip \<and> captured_flashcards (keydown ?p) \<noteq> []"
    using that by (cases c) (simp_all add: register_keeps handleNextCard_def handlePrevCard_def)
  have n3: "state (step (Key c) ?p) = state ?p"
    if "c \<noteq> Flip \<and> captured_flashcards (keydown ?p) = []"
    using that by (cases c) (simp_all add: register_keeps handleNextCard_def handlePrevCard_def)
  show ?thesis using k1 k2 c2 n1 n2 n3 flip_keeps_data(1) [of ?p] by blast
qed

theorem flip_twice_and_navigation_reset_witness:
  "state (step (Click Flip) (step (Click Flip)
      (run [Authenticated ''u1'', Loaded [''a'', ''b''], Click Next, Key Flip] mounted)))
     = \<lparr>userId = Some ''u1'', currentCardIndex = 1, isFlipped = True\<rparr>
   \<and> \<not> isFlipped (state (step (Click Next)
      (run [Authenticated ''u1'', Loaded [''a'', ''b''], Click Next, Key Flip] mounted)))
   \<and> \<not> isFlipped (state (step (Key Previous)
      (run [Authenticated ''u1'', Loaded [''a'', ''b''], Click Next, Key Flip] mounted)))
   \<and> state (step (Key Next) (run [Authenticated ''u1'', Loaded [], Key Flip] mounted))
     = \<lparr>userId = Some ''u1'', currentCardIndex = 0, isFlipped = True\<rparr>"
  using flip_twice_and_navigation_reset
      [of "[Authenticated ''u1'', Loaded [''a'', ''b''], Click Next, Key Flip]" Next]
    flip_twice_and_navigation_reset
      [of "[Authenticated ''u1'', Loaded [''a'', ''b''], Click Next, Key Flip]" Previous]
    flip_twice_and_navigation_reset
      [of "[Authenticated ''u1'', Loaded ([] :: string list), Key Flip]" Next]
  by (simp add: mounted_def initial_def register_keydown_def enabled_def truthy_def
        handleFlipCard_def handleNextCard_def handlePrevCard_def js_rem_def)

text \<open>
  The claim as stated fails with no flashcard: after a flip, next leaves the card
  flipped.
\<close>

theorem next_keeps_flip_without_cards:
  "isFlipped (state (run [Key Flip, Key Next] (mounted :: Flashcard page)))"
  by (simp add: mounted_def initial_def register_keydown_def handleFlipCard_def
        handleNextCard_def)

lemma handler_range:
  assumes "0 \<le> currentCardIndex s" and "currentCardIndex s < int (max 1 n)"
      and "length cards = 0 \<or> length cards = n"
  shows "0 \<le> currentCardIndex (handler c f cards s)
       \<and> currentCardIndex (handler c f cards s) < int (max 1 n)"
proof (cases "cards = []")
  case True
  then show ?thesis
    using assms by (cases c) (simp_all add: handleFlipCard_def handleNextCard_def handlePrevCard_def)
next
  case False
  then have pos: "Suc 0 \<le> length cards" by (cases cards) simp_all
  then have n: "length cards = n" "0 < int n" "max 1 n = n" using assms(3) by (auto simp add: max_def)
  show ?thesis
  proof (cases c)
    case Flip
    then show ?thesis using assms by (simp add: handleFlipCard_def)
  next
    case Next
    then show ?thesis using next_index [OF False assms(1)] n by simp
  next
    case Previous
    then show ?thesis using prev_index [OF False assms(1)] n by simp
  qed
qed

lemma step_range:
  assumes "loads n e"
      and "0 \<le> currentCardIndex (state p)" and "currentCardIndex (state p) < int (max 1 n)"
      and "length (flashcards_data p) = 0 \<or> length (flashcards_data p) = n"
      and "length (captured_flashcards (keydown p)) = 0
           \<or> length (captured_flashcards (keydown p)) = n"
  shows "0 \<le> currentCardIndex (state (step e p))
       \<and> currentCardIndex (state (step e p)) < int (max 1 n)
       \<and> (length (flashcards_data (step e p)) = 0 \<or> length (flashcards_data (step e p)) = n)
       \<and> (length (captured_flashcards (keydown (step e p))) = 0
           \<or> length (captured_flashcards (keydown (step e p))) = n)"
proof (cases e)
  case (Authenticated u)
  then show ?thesis
    using assms(2-5) register_captured [of "p\<lparr>state := (state p)\<lparr>userId := Some u\<rparr>\<rparr>"]
    by (auto simp add: register_keeps)
next
  case (Loaded cs)
  then show ?thesis
    using assms register_captured [of "p\<lparr>flashcards_data := cs\<rparr>"]
    by (auto simp add: register_keeps)
next
  case (Click c)
  let ?q = "if enabled c p
        then p\<lparr>state := handler c (isFlipped (state p)) (flashcards_data p) (state p)\<rparr>
        else p"
  have "0 \<le> currentCardIndex (state ?q) \<and> currentCardIndex (state ?q) < int (max 1 n)"
    using handler_range [OF assms(2,3,4)] assms(2,3) by simp
  moreover have "flashcards_data ?q = flashcards_data p" "keydown ?q = keydown p" by simp_all
  ultimately show ?thesis
    using Click assms(4,5) register_captured [of ?q]
    by (auto simp add: register_keeps simp del: handler.simps)
next
  case (Key k)
  let ?q = "p\<lparr>state := handler k (dep_flipped (keydown p)) (captured_flashcards (keydown p))
                      (state p)\<rparr>"
  have "0 \<le> currentCardIndex (state ?q) \<and> currentCardIndex (state ?q) < int (max 1 n)"
    using handler_range [OF assms(2,3,5)] by simp
  moreover have "flashcards_data ?q = flashcards_data p" "keydown ?q = keydown p" by simp_all
  ultimately show ?thesis
    using Key assms(4,5) register_captured [of ?q]
    by (auto simp add: register_keeps simp del: handler.simps)
qed

lemma run_range:
  assumes "list_all (loads n) es"
      and "0 \<le> currentCardIndex (state p)" and "currentCardIndex (state p) < int (max 1 n)"
      and "length (flashcards_data p) = 0 \<or> length (flashcards_data p) = n"
      and "length (captured_flashcards (keydown p)) = 0
           \<or> length (captured_flashcards (keydown p)) = n"
  shows "0 \<le> currentCardIndex (state (run es p))
       \<and> currentCardIndex (state (run es p)) < int (max 1 n)"
  using assms
proof (induction es arbitrary: p)
  case Nil
  then show ?case by simp
next
  case (Cons e es)
  have e: "loads n e" and es: "list_all (loads n) es" using Cons.prems(1) by simp_all
  note st = step_range [OF e Cons.prems(2-5)]
  show ?case
    using Cons.IH [OF es, of "step e p"] st by simp
qed

text \<open>
  C8, as amended. Let every list that the query delivers have \<open>n\<close> flashcards. With
  \<open>n\<close> at least 1 the index stays inside such a list along every run of events from the
  mounted page, clicks and keys alike; with \<open>n = 0\<close> it stays 0. A next or previous
  whose handler holds at least one flashcard gives \<open>(index + 1) mod count\<close> and
  \<open>(index - 1 + count) mod count\<close>, \<open>count\<close> being the number of flashcards the handler
  holds, which for the two buttons is the number on the screen; one whose handler holds
  no flashcard changes nothing.
\<close>

theorem index_stays_in_range:
  assumes "list_all (loads n) es"
  shows "(1 \<le> n \<longrightarrow> 0 \<le> currentCardIndex (state (run es mounted))
                  \<and> currentCardIndex (state (run es mounted)) < int n)
       \<and> (n = 0 \<longrightarrow> currentCardIndex (state (run es mounted)) = 0)
       \<and> (enabled Next (run es mounted) \<longrightarrow>
            currentCardIndex (state (step (Click Next) (run es mounted)))
              = (currentCardIndex (state (run es mounted)) + 1)
                  mod int (length (flashcards_data (run es mounted))))
       \<and> (enabled Previous (run es mounted) \<longrightarrow>
            currentCardIndex (state (step (Click Previous) (run es mounted)))
              = (currentCardIndex (state (run es mounted)) - 1
                   + int (length (flashcards_data (run es mounted))))
                  mod int (length (flashcards_data (run es mounted))))
       \<and> (captured_flashcards (keydown (run es mounted)) \<noteq> [] \<longrightarrow>
            currentCardIndex (state (step (Key Next) (run es mounted)))
              = (currentCardIndex (state (run es mounted)) + 1)
                  mod int (length (captured_flashcards (keydown (run es mounted))))
            \<and> currentCardIndex (state (step (Key Previous) (run es mounted)))
              = (currentCardIndex (state (run es mounted)) - 1
                   + int (length (captured_flashcards (keydown (run es mounted)))))
                  mod int (length (captured_flashcards (keydown (run es mounted)))))
       \<and> (captured_flashcards (keydown (run es mounted)) = [] \<longrightarrow>
            state (step (Key Next) (run es mounted)) = state (run es mounted)
            \<and> state (step (Key Previous) (run es mounted)) = state (run es mounted))"
proof -
  let ?p = "run es mounted"
  have r: "0 \<le> currentCardIndex (state ?p) \<and> currentCardIndex (state ?p) < int (max 1 n)"
    using assms by (rule run_range) (simp_all add: mounted_def initial_def)
  then have nn: "0 \<le> currentCardIndex (state ?p)" by simp
  have a: "1 \<le> n \<longrightarrow> 0 \<le> currentCardIndex (state ?p) \<and> currentCardIndex (state ?p) < int n"
    using r by (auto simp add: max_def)
  have b: "n = 0 \<longrightarrow> currentCardIndex (state ?p) = 0" using r by auto
  have c: "currentCardIndex (state (step (Click Next) ?p))
              = (currentCardIndex (state ?p) + 1) mod int (length (flashcards_data ?p))"
    if "enabled Next ?p"
  proof -
    have "flashcards_data ?p \<noteq> []" using that by (auto simp add: enabled_def)
    from next_index [OF this nn] show ?thesis using that by (simp add: register_keeps)
  qed
  have d: "currentCardIndex (state (step (Click Previous) ?p))
              = (currentCardIndex (state ?p) - 1 + int (length (flashcards_data ?p)))
                  mod int (length (flashcards_data ?p))"
    if "enabled Previous ?p"
  proof -
    have "flashcards_data ?p \<noteq> []" using that by (auto simp add: enabled_def)
    from prev_index [OF this nn] show ?thesis using that by (simp add: register_keeps)
  qed
  have e: "currentCardIndex (state (step (Key Next) ?p))
              = (currentCardIndex (state ?p) + 1)
                  mod int (length (captured_flashcards (keydown ?p)))
            \<and> currentCardIndex (state (step (Key Previous) ?p))
              = (currentCardIndex (state ?p) - 1 + int (length (captured_flashcards (keydown ?p))))
                  mod int (length (captured_flashcards (keydown ?p)))"
    if ne: "captured_flashcards (keydown ?p) \<noteq> []"
    using next_index [OF ne nn] prev_index [OF ne nn] by (simp add: register_keeps)
  have f: "state (step (Key Next) ?p) = state ?p \<and> state (step (Key Previous) ?p) = state ?p"
    if "captured_flashcards (keydown ?p) = []"
    using that by (simp add: register_keeps handleNextCard_def handlePrevCard_def)
  show ?thesis using a b c d e f by blast
qed

theorem index_stays_in_range_witness:
  "0 \<le> currentCardIndex (state (run [Authenticated ''u1'', Loaded [''a'', ''b'', ''c'', ''d''],
          Click Previous, Key Flip, Key Next, Loaded [''a'', ''b'', ''c'', ''e''], Key Next] mounted))
   \<and> currentCardIndex (state (run [Authenticated ''u1'', Loaded [''a'', ''b'', ''c'', ''d''],
          Click Previous, Key Flip, Key Next, Loaded [''a'', ''b'', ''c'', ''e''], Key Next] mounted))
       < 4
   \<and> currentCardIndex (state (step (Click Previous)
          (run [Authenticated ''u1'', Loaded [''a'', ''b'', ''c'', ''d'']] mounted))) = 3
   \<and> currentCardIndex (state (step (Click Next)
          (run [Authenticated ''u1'', Loaded [''a'', ''b'', ''c'', ''d''], Click Previous] mounted))) = 0
   \<and> currentCardIndex (state (run [Key Next, Key Previous] (mounted :: string page))) = 0"
  using index_stays_in_range [of 4 "[Authenticated ''u1'', Loaded [''a'', ''b'', ''c'', ''d''],
          Click Previous, Key Flip, Key Next, Loaded [''a'', ''b'', ''c'', ''e''], Key Next]"]
    index_stays_in_range [of 4 "[Authenticated ''u1'', Loaded [''a'', ''b'', ''c'', ''d'']]"]
    index_stays_in_range [of 4 "[Authenticated ''u1'', Loaded [''a'', ''b'', ''c'', ''d''],
          Click Previous]"]
    index_stays_in_range [of 0 "[Key Next, Key Previous] :: string event list"]
  by (simp add: mounted_def initial_def register_keydown_def enabled_def truthy_def
        handleFlipCard_def handleNextCard_def handlePrevCard_def js_rem_def)

text \<open>
  The claim as stated fails with no flashcard: the index is 0, and no index lies in
  the empty range from 0 up to the count 0.
\<close>

theorem index_outside_range_without_cards:
  "\<not> (0 \<le> currentCardIndex (state (run [Key Next] (mounted :: Flashcard page)))
      \<and> currentCardIndex (state (run [Key Next] (mounted :: Flashcard page)))
          < int (length (flashcards_data (run [Key Next] (mounted :: Flashcard page)))))"
  by (simp add: mounted_def initial_def register_keydown_def handleNextCard_def)

text \<open>
  The handlers of one render, applied one after the other to a list of at least one
  flashcard and an index inside it, do cycle and undo each other.
\<close>

lemma next_iterated:
  assumes "cards \<noteq> []" "0 \<le> currentCardIndex s"
  shows "currentCardIndex ((handleNextCard cards ^^ Suc k) s)
           = (currentCardIndex s + 1 + int k) mod int (length cards)"
proof (induction k)
  case 0
  show ?case using assms by (simp add: next_index)
next
  case (Suc k)
  let ?t = "(handleNextCard cards ^^ Suc k) s"
  have nn: "0 \<le> currentCardIndex ?t" using Suc assms by simp
  have "currentCardIndex ((handleNextCard cards ^^ Suc (Suc k)) s)
          = (currentCardIndex ?t + 1) mod int (length cards)"
    using next_index [OF assms(1) nn] by simp
  also have "\<dots> = (currentCardIndex s + 1 + int (Suc k)) mod int (length cards)"
    unfolding Suc by (simp add: mod_simps algebra_simps)
  finally show ?case .
qed

lemma handlers_of_one_render_cycle:
  assumes "1 \<le> length cards"
      and "0 \<le> currentCardIndex s" and "currentCardIndex s < int (length cards)"
  shows "currentCardIndex ((handleNextCard cards ^^ length cards) s) = currentCardIndex s
       \<and> handlePrevCard cards (handleNextCard cards s) = s\<lparr>isFlipped := False\<rparr>
       \<and> handleNextCard cards (handlePrevCard cards s) = s\<lparr>isFlipped := False\<rparr>"
proof (intro conjI)
  have ne: "cards \<noteq> []" using assms(1) by auto
  obtain k where k: "length cards = Suc k" using assms(1) by (cases "length cards") auto
  have "currentCardIndex ((handleNextCard cards ^^ Suc k) s)
          = (currentCardIndex s + 1 + int k) mod int (length cards)"
    by (rule next_iterated [OF ne assms(2)])
  also have "\<dots> = (currentCardIndex s + int (length cards)) mod int (length cards)"
    using k by (simp add: add.assoc)
  also have "\<dots> = currentCardIndex s" using assms(2,3) by simp
  finally show "currentCardIndex ((handleNextCard cards ^^ length cards) s) = currentCardIndex s"
    using k by simp
  let ?n = "int (length cards)"
  have n: "0 < ?n" using ne by simp
  have a: "0 \<le> (currentCardIndex s + 1) mod ?n" using n by simp
  have "((currentCardIndex s + 1) mod ?n - 1 + ?n) mod ?n = (currentCardIndex s + 1 - 1 + ?n) mod ?n"
    by (metis (no_types, opaque_lifting) mod_add_left_eq mod_diff_left_eq)
  then have pn: "((currentCardIndex s + 1) mod ?n - 1 + ?n) mod ?n = currentCardIndex s"
    using assms(2,3) by simp
  have "currentCardIndex (handlePrevCard cards (handleNextCard cards s)) = currentCardIndex s"
    using prev_index [OF ne, of "handleNextCard cards s"] next_index [OF ne assms(2)] a pn
    by simp
  then show "handlePrevCard cards (handleNextCard cards s) = s\<lparr>isFlipped := False\<rparr>"
    using ne by (simp add: handlePrevCard_def handleNextCard_def)
  have b: "0 \<le> (currentCardIndex s - 1 + ?n) mod ?n" using n by simp
  have "((currentCardIndex s - 1 + ?n) mod ?n + 1) mod ?n = (currentCardIndex s - 1 + ?n + 1) mod ?n"
    by (metis mod_add_left_eq)
  then have np: "((currentCardIndex s - 1 + ?n) mod ?n + 1) mod ?n = currentCardIndex s"
    using assms(2,3) by simp
  have "currentCardIndex (handleNextCard cards (handlePrevCard cards s)) = currentCardIndex s"
    using next_index [OF ne, of "handlePrevCard cards s"] prev_index [OF ne assms(2)] b np
    by simp
  then show "handleNextCard cards (handlePrevCard cards s) = s\<lparr>isFlipped := False\<rparr>"
    using ne by (simp add: handlePrevCard_def handleNextCard_def)
qed

text \<open>
  C1. On the page the claim does not hold. The cards arrive after the keydown listener
  was added, and neither dependency of its effect changes when they arrive, so the
  listener keeps the handlers of the render before, whose list is empty: the right arrow
  returns at the guard. With three flashcards, a right arrow and two clicks on Next are
  three nexts and end at index 2; a right arrow and a click on Previous end at index 2
  as well; and after a flip made while the cards were loading, a right and a left arrow
  leave the card flipped.
\<close>

theorem keydown_listener_keeps_empty_list:
  "currentCardIndex (state (run [Authenticated ''u1'', Loaded [''a'', ''b'', ''c''],
       Key Next, Click Next, Click Next] mounted)) = 2
   \<and> currentCardIndex (state (run [Authenticated ''u1'', Loaded [''a'', ''b'', ''c''],
       Key Next, Click Previous] mounted)) = 2
   \<and> state (run [Key Flip, Authenticated ''u1'', Loaded [''a'', ''b'', ''c''],
       Key Next, Key Previous] mounted)
     = \<lparr>userId = Some ''u1'', currentCardIndex = 0, isFlipped = True\<rparr>"
  by (simp add: mounted_def initial_def register_keydown_def enabled_def truthy_def
        handleFlipCard_def handleNextCard_def handlePrevCard_def js_rem_def)

section \<open>Properties of the data-access module\<close>

subsection \<open>toggleStar\<close>

lemma matching_rows_count:
  "length (filter (\<lambda>r. star_user_id r = u \<and> flashcard_id r = c) xs) = count_list xs (u, c)"
  by (induction xs) auto


lemma single_answer_one:
  assumes "count_list (starred_flashcards d) (u, c) = 1"
  shows "data (select_single_starred None d u c) = Some (u, c)"
proof -
  let ?m = "filter (\<lambda>r. star_user_id r = u \<and> flashcard_id r = c) (starred_flashcards d)"
  have "length ?m = 1" using assms by (simp add: matching_rows_count)
  then obtain r where r: "?m = [r]" by (cases ?m) auto
  then have "r \<in> set ?m" by simp
  then have "r = (u, c)" by auto
  then show ?thesis using r by (simp add: select_single_starred_def served_def)
qed

lemma single_answer_other:
  assumes "count_list (starred_flashcards d) (u, c) \<noteq> 1"
  shows "data (select_single_starred None d u c) = None"
proof -
  let ?m = "filter (\<lambda>r. star_user_id r = u \<and> flashcard_id r = c) (starred_flashcards d)"
  have "length ?m \<noteq> 1" using assms by (simp add: matching_rows_count)
  then show ?thesis
    by (cases ?m rule: remdups_adj.cases) (simp_all add: select_single_starred_def failed_def)
qed

lemma single_answer_failed: "data (select_single_starred (Some e) d u c) = None"
  by (simp add: select_single_starred_def failed_def)

lemma toggleStar_present:
  assumes "fault_at fs 0 = None" "star_rows d u c = 1"
  shows "toggleStar fs d u c =
           (case fault_at fs 1 of
              Some e \<Rightarrow> (Inl e, d)
            | None \<Rightarrow> (Inr False,
                d\<lparr>starred_flashcards :=
                    filter (\<lambda>r. \<not> (star_user_id r = u \<and> flashcard_id r = c)) (starred_flashcards d)\<rparr>))"
  using assms single_answer_one [of d u c]
  by (simp add: toggleStar_def star_rows_def delete_starred_def failed_def done_without_data_def
           split: option.splits)

lemma toggleStar_absent:
  assumes "fault_at fs 0 = None" "star_rows d u c \<noteq> 1"
  shows "toggleStar fs d u c =
           (case fault_at fs 1 of
              Some e \<Rightarrow> (Inl e, d)
            | None \<Rightarrow> (Inr True, d\<lparr>starred_flashcards := starred_flashcards d @ [(u, c)]\<rparr>))"
  using assms single_answer_other [of d u c]
  by (simp add: toggleStar_def star_rows_def insert_starred_def failed_def done_without_data_def
           split: option.splits)

lemma toggleStar_check_failed:
  assumes "fault_at fs 0 = Some e0"
  shows "toggleStar fs d u c =
           (case fault_at fs 1 of
              Some e \<Rightarrow> (Inl e, d)
            | None \<Rightarrow> (Inr True, d\<lparr>starred_flashcards := starred_flashcards d @ [(u, c)]\<rparr>))"
  using assms
  by (simp add: toggleStar_def single_answer_failed insert_starred_def failed_def
                done_without_data_def split: option.splits)








lemma toggleStar_mutation_failed:
  assumes "fault_at fs 1 = Some e"
  shows "toggleStar fs d u c = (Inl e, d)"
  using assms
  by (simp add: toggleStar_def delete_starred_def insert_starred_def failed_def
           split: option.splits)

text \<open>
  C3, as amended. When the existence check is answered and finds the one row of the
  pair, \<open>toggleStar\<close> deletes the rows of the pair and returns false; when it finds
  none, it appends a row and returns true. An error of the delete or of the insert
  reaches the caller, and the store is left as it was. An error of the existence check
  does not reach the caller: only the data of the answer is read, the row is taken to be
  absent and the insert is made.
\<close>

theorem toggleStar_outcomes:
  "(fault_at fs 0 = None \<and> star_rows d u c = 1 \<and> fault_at fs 1 = None \<longrightarrow>
      toggleStar fs d u c =
        (Inr False,
         d\<lparr>starred_flashcards :=
             filter (\<lambda>r. \<not> (star_user_id r = u \<and> flashcard_id r = c)) (starred_flashcards d)\<rparr>))
   \<and> (fault_at fs 0 = None \<and> star_rows d u c = 0 \<and> fault_at fs 1 = None \<longrightarrow>
        toggleStar fs d u c =
          (Inr True, d\<lparr>starred_flashcards := starred_flashcards d @ [(u, c)]\<rparr>))
   \<and> (fault_at fs 1 = Some e \<longrightarrow> toggleStar fs d u c = (Inl e, d))
   \<and> (fault_at fs 0 = Some e0 \<and> fault_at fs 1 = None \<longrightarrow>
        toggleStar fs d u c =
          (Inr True, d\<lparr>starred_flashcards := starred_flashcards d @ [(u, c)]\<rparr>))"
proof (intro conjI impI)
  assume a: "fault_at fs 0 = None \<and> star_rows d u c = 1 \<and> fault_at fs 1 = None"
  then show "toggleStar fs d u c =
        (Inr False,
         d\<lparr>starred_flashcards :=
             filter (\<lambda>r. \<not> (star_user_id r = u \<and> flashcard_id r = c)) (starred_flashcards d)\<rparr>)"
    using toggleStar_present [of fs d u c] by simp
next
  assume a: "fault_at fs 0 = None \<and> star_rows d u c = 0 \<and> fault_at fs 1 = None"
  then show "toggleStar fs d u c =
          (Inr True, d\<lparr>starred_flashcards := starred_flashcards d @ [(u, c)]\<rparr>)"
    using toggleStar_absent [of fs d u c] by simp
next
  assume "fault_at fs 1 = Some e"
  then show "toggleStar fs d u c = (Inl e, d)" by (rule toggleStar_mutation_failed)
next
  assume a: "fault_at fs 0 = Some e0 \<and> fault_at fs 1 = None"
  then show "toggleStar fs d u c =
          (Inr True, d\<lparr>starred_flashcards := starred_flashcards d @ [(u, c)]\<rparr>)"
    using toggleStar_check_failed [of fs e0 d u c] by simp
qed

theorem toggleStar_outcomes_witness:
  "toggleStar [] \<lparr>study_sets = [], flashcards = [],
                  starred_flashcards = [(''u1'', ''c1''), (''u2'', ''c1'')]\<rparr> ''u1'' ''c1''
     = (Inr False, \<lparr>study_sets = [], flashcards = [], starred_flashcards = [(''u2'', ''c1'')]\<rparr>)
   \<and> toggleStar [] \<lparr>study_sets = [], flashcards = [], starred_flashcards = [(''u2'', ''c1'')]\<rparr>
        ''u1'' ''c1''
     = (Inr True, \<lparr>study_sets = [], flashcards = [],
                   starred_flashcards = [(''u2'', ''c1''), (''u1'', ''c1'')]\<rparr>)
   \<and> toggleStar [None, Some (RequestFailed ''offline'')]
        \<lparr>study_sets = [], flashcards = [], starred_flashcards = [(''u1'', ''c1'')]\<rparr> ''u1'' ''c1''
     = (Inl (RequestFailed ''offline''),
        \<lparr>study_sets = [], flashcards = [], starred_flashcards = [(''u1'', ''c1'')]\<rparr>)
   \<and> toggleStar [Some (RequestFailed ''offline'')]
        \<lparr>study_sets = [], flashcards = [], starred_flashcards = []\<rparr> ''u1'' ''c1''
     = (Inr True, \<lparr>study_sets = [], flashcards = [], starred_flashcards = [(''u1'', ''c1'')]\<rparr>)"
  using toggleStar_outcomes [of "[]"
      "\<lparr>study_sets = [], flashcards = [], starred_flashcards = [(''u1'', ''c1''), (''u2'', ''c1'')]\<rparr>"
      "''u1''" "''c1''"]
    toggleStar_outcomes [of "[]"
      "\<lparr>study_sets = [], flashcards = [], starred_flashcards = [(''u2'', ''c1'')]\<rparr>"
      "''u1''" "''c1''"]
    toggleStar_outcomes [of "[None, Some (RequestFailed ''offline'')]"
      "\<lparr>study_sets = [], flashcards = [], starred_flashcards = [(''u1'', ''c1'')]\<rparr>"
      "''u1''" "''c1''" "RequestFailed ''offline''"]
    toggleStar_outcomes [of "[Some (RequestFailed ''offline'')]"
      "\<lparr>study_sets = [], flashcards = [], starred_flashcards = []\<rparr>"
      "''u1''" "''c1''" _ "RequestFailed ''offline''"]
  by (simp add: star_rows_def fault_at_def)

text \<open>
  The claim as stated fails when the existence check fails: the call returns true and
  the error of the store is lost.
\<close>

theorem toggleStar_swallows_failed_check:
  "fst (toggleStar [Some (RequestFailed ''offline'')]
          \<lparr>study_sets = [], flashcards = [], starred_flashcards = []\<rparr> ''u1'' ''c1'')
     = Inr True"
  by (simp add: toggleStar_def fault_at_def select_single_starred_def insert_starred_def
        failed_def done_without_data_def)

subsection \<open>deleteStudySet and createStudySet\<close>

text \<open>
  C6. \<open>deleteStudySet\<close> deletes the cards of the set, then the set, and returns whether
  the second delete succeeded. The answer of the first delete is never looked at: when
  it fails and the second succeeds, the result is true and the cards are still there.
\<close>

theorem deleteStudySet_outcomes:
  "fst (deleteStudySet fs d s) = (fault_at fs 1 = None)
   \<and> flashcards (snd (deleteStudySet fs d s))
       = (if fault_at fs 0 = None then filter (\<lambda>c. study_set_id c \<noteq> s) (flashcards d)
          else flashcards d)
   \<and> study_sets (snd (deleteStudySet fs d s))
       = (if fault_at fs 1 = None then filter (\<lambda>r. study_set_row.id r \<noteq> s) (study_sets d)
          else study_sets d)
   \<and> starred_flashcards (snd (deleteStudySet fs d s)) = starred_flashcards d
   \<and> (fault_at fs 0 = Some e \<and> fault_at fs 1 = None \<longrightarrow>
        fst (deleteStudySet fs d s) \<and> flashcards (snd (deleteStudySet fs d s)) = flashcards d)"
  by (simp add: deleteStudySet_def delete_flashcards_of_set_def delete_study_set_by_id_def
        failed_def done_without_data_def split: option.splits)

theorem deleteStudySet_outcomes_witness:
  "deleteStudySet [Some (RequestFailed ''offline'')]
     \<lparr>study_sets = [\<lparr>study_set_row.id = ''s1'', user_id = ''u1'', title = ''Verbs'',
                     description = None, study_set_row.created_at = 1, updated_at = 2\<rparr>],
      flashcards = [\<lparr>flashcard_row.id = ''c1'', study_set_id = ''s1'', term' = ''ir'',
                     definition' = ''to go'', position = 0, flashcard_row.created_at = 1\<rparr>],
      starred_flashcards = []\<rparr> ''s1''
   = (True,
      \<lparr>study_sets = [],
       flashcards = [\<lparr>flashcard_row.id = ''c1'', study_set_id = ''s1'', term' = ''ir'',
                      definition' = ''to go'', position = 0, flashcard_row.created_at = 1\<rparr>],
       starred_flashcards = []\<rparr>)"
  using deleteStudySet_outcomes [of "[Some (RequestFailed ''offline'')]"
     "\<lparr>study_sets = [\<lparr>study_set_row.id = ''s1'', user_id = ''u1'', title = ''Verbs'',
                     description = None, study_set_row.created_at = 1, updated_at = 2\<rparr>],
      flashcards = [\<lparr>flashcard_row.id = ''c1'', study_set_id = ''s1'', term' = ''ir'',
                     definition' = ''to go'', position = 0, flashcard_row.created_at = 1\<rparr>],
      starred_flashcards = []\<rparr>" "''s1''" "RequestFailed ''offline''"]
  by (simp add: fault_at_def deleteStudySet_def delete_flashcards_of_set_def
        delete_study_set_by_id_def failed_def done_without_data_def)

lemma or_null_cases:
  "or_null x = (case x of None \<Rightarrow> None | Some t \<Rightarrow> if t = [] then None else Some t)"
  by (simp add: or_null_def truthy_def split: option.splits)

text \<open>
  C10. A set returned by \<open>createStudySet\<close> never has the empty string as description:
  when the argument is left out or is the empty string the row is stored, and
  returned, with no description, and a description that is not empty is stored as it is.
\<close>

theorem createStudySet_description:
  "(\<forall>s. fst (createStudySet fs gen d u t x) = Some s \<longrightarrow>
          description s \<noteq> Some []
          \<and> (x = None \<or> x = Some [] \<longrightarrow> description s = None)
          \<and> user_id s = u \<and> title s = t \<and> flashcard_count s = None)
   \<and> (fault_at fs 0 = None \<longrightarrow>
        (\<exists>row. study_sets (snd (createStudySet fs gen d u t x)) = study_sets d @ [row]
               \<and> fst (createStudySet fs gen d u t x)
                   = Some (study_set_row.extend row (StudySet.fields None))
               \<and> description row \<noteq> Some []
               \<and> (x = None \<or> x = Some [] \<longrightarrow> description row = None)
               \<and> (\<forall>y. x = Some y \<and> y \<noteq> [] \<longrightarrow> description row = Some y)))
   \<and> (fault_at fs 0 \<noteq> None \<longrightarrow> createStudySet fs gen d u t x = (None, d))"
  by (auto simp add: createStudySet_def insert_study_set_def failed_def served_def Let_def
        or_null_cases study_set_row.defs StudySet.defs split: option.splits)

theorem createStudySet_description_witness:
  "createStudySet [] (''s9'', 7) \<lparr>study_sets = [], flashcards = [], starred_flashcards = []\<rparr>
      ''u1'' ''Verbs'' (Some [])
   = (Some \<lparr>study_set_row.id = ''s9'', user_id = ''u1'', title = ''Verbs'', description = None,
            study_set_row.created_at = 7, updated_at = 7, flashcard_count = None\<rparr>,
      \<lparr>study_sets = [\<lparr>study_set_row.id = ''s9'', user_id = ''u1'', title = ''Verbs'',
                      description = None, study_set_row.created_at = 7, updated_at = 7\<rparr>],
       flashcards = [], starred_flashcards = []\<rparr>)"
  using createStudySet_description [of "[]" "(''s9'', 7)"
      "\<lparr>study_sets = [], flashcards = [], starred_flashcards = []\<rparr>" "''u1''" "''Verbs''" "Some []"]
  by (simp add: createStudySet_def insert_study_set_def fault_at_def served_def or_null_def
        truthy_def study_set_row.defs StudySet.defs Let_def)

subsection \<open>getStudySets\<close>

lemma getStudySets_failed:
  "fault_at fs 0 = Some e \<Longrightarrow> getStudySets fs d u = []"
  by (simp add: getStudySets_def select_study_sets_by_user_def failed_def)

lemma getStudySets_served:
  assumes "fault_at fs 0 = None"
  shows "getStudySets fs d u =
    map (\<lambda>(i, r). study_set_row.extend r (StudySet.fields (Some (or_zero
            (count (count_flashcards_of_set (fault_at fs (Suc i)) d (study_set_row.id r)))))))
      (enumerate 0 (rev (sort_key updated_at (filter (\<lambda>r. user_id r = u) (study_sets d)))))"
  using assms
  by (simp add: getStudySets_def select_study_sets_by_user_def served_def or_empty_def)

lemma truncate_extend_study_set:
  "study_set_row.truncate (study_set_row.extend r m) = r"
  by (simp add: study_set_row.defs)

lemma map_over_enumerate:
  "(\<And>i r. g (f (i, r)) = r) \<Longrightarrow> map g (map f (enumerate n xs)) = xs"
  by (induction xs arbitrary: n) simp_all

lemma count_answer:
  "or_zero (count (count_flashcards_of_set f d s))
     = (if f = None then length (filter (\<lambda>c. study_set_id c = s) (flashcards d)) else 0)"
  by (simp add: count_flashcards_of_set_def counted_def failed_def or_zero_def split: option.splits)

text \<open>
  C4, as amended. When the request of the user's sets fails, \<open>getStudySets\<close> returns
  the empty list. When it is served, the result holds exactly the user's sets, by
  \<open>updated_at\<close> descending, and the set at index \<open>i\<close> carries the number of cards that
  its count query reports, or 0 when that count query fails.
\<close>

theorem getStudySets_outcomes:
  "(fault_at fs 0 = Some e \<longrightarrow> getStudySets fs d u = [])
   \<and> (fault_at fs 0 = None \<longrightarrow>
        mset (map study_set_row.truncate (getStudySets fs d u))
          = mset (filter (\<lambda>r. user_id r = u) (study_sets d))
        \<and> sorted (rev (map updated_at (getStudySets fs d u)))
        \<and> (\<forall>i < length (getStudySets fs d u).
              flashcard_count (getStudySets fs d u ! i)
                = Some (if fault_at fs (Suc i) = None
                        then length (filter (\<lambda>c. study_set_id c
                                               = study_set_row.id (getStudySets fs d u ! i))
                                       (flashcards d))
                        else 0)))"
proof (intro conjI impI)
  assume "fault_at fs 0 = Some e"
  then show "getStudySets fs d u = []" by (rule getStudySets_failed)
next
  assume ok: "fault_at fs 0 = None"
  let ?rows = "rev (sort_key updated_at (filter (\<lambda>r. user_id r = u) (study_sets d)))"
  let ?f = "\<lambda>(i, r). study_set_row.extend r (StudySet.fields (Some (or_zero
            (count (count_flashcards_of_set (fault_at fs (Suc i)) d (study_set_row.id r))))))"
  have R: "getStudySets fs d u = map ?f (enumerate 0 ?rows)"
    using ok by (rule getStudySets_served)
  have tr: "map study_set_row.truncate (getStudySets fs d u) = ?rows"
    unfolding R by (rule map_over_enumerate) (simp add: truncate_extend_study_set)
  show "mset (map study_set_row.truncate (getStudySets fs d u))
          = mset (filter (\<lambda>r. user_id r = u) (study_sets d))"
    unfolding tr by simp
  have "map updated_at (getStudySets fs d u) = map updated_at ?rows"
    unfolding R by (rule nth_equalityI) (simp_all add: nth_enumerate_eq study_set_row.defs)
  then show "sorted (rev (map updated_at (getStudySets fs d u)))"
    by (simp add: rev_map)
  show "\<forall>i < length (getStudySets fs d u).
              flashcard_count (getStudySets fs d u ! i)
                = Some (if fault_at fs (Suc i) = None
                        then length (filter (\<lambda>c. study_set_id c
                                               = study_set_row.id (getStudySets fs d u ! i))
                                       (flashcards d))
                        else 0)"
    unfolding R
    by (simp add: nth_enumerate_eq count_answer study_set_row.defs StudySet.defs)
qed

theorem getStudySets_outcomes_witness:
  "getStudySets [Some (RequestFailed ''offline'')]
      \<lparr>study_sets = [\<lparr>study_set_row.id = ''s1'', user_id = ''u1'', title = ''Verbs'',
                      description = None, study_set_row.created_at = 1, updated_at = 2\<rparr>],
       flashcards = [], starred_flashcards = []\<rparr> ''u1'' = []
   \<and> map flashcard_count (getStudySets []
        \<lparr>study_sets = [\<lparr>study_set_row.id = ''s1'', user_id = ''u1'', title = ''Verbs'',
                        description = None, study_set_row.created_at = 1, updated_at = 2\<rparr>,
                      \<lparr>study_set_row.id = ''s2'', user_id = ''u1'', title = ''Nouns'',
                        description = None, study_set_row.created_at = 1, updated_at = 5\<rparr>],
         flashcards = [\<lparr>flashcard_row.id = ''c1'', study_set_id = ''s1'', term' = ''ir'',
                        definition' = ''to go'', position = 0, flashcard_row.created_at = 1\<rparr>],
         starred_flashcards = []\<rparr> ''u1'') = [Some 0, Some 1]"
  using getStudySets_outcomes [of "[Some (RequestFailed ''offline'')]" "RequestFailed ''offline''"
      "\<lparr>study_sets = [\<lparr>study_set_row.id = ''s1'', user_id = ''u1'', title = ''Verbs'',
                      description = None, study_set_row.created_at = 1, updated_at = 2\<rparr>],
       flashcards = [], starred_flashcards = []\<rparr>" "''u1''"]
    getStudySets_outcomes [of "[]" _
      "\<lparr>study_sets = [\<lparr>study_set_row.id = ''s1'', user_id = ''u1'', title = ''Verbs'',
                        description = None, study_set_row.created_at = 1, updated_at = 2\<rparr>,
                      \<lparr>study_set_row.id = ''s2'', user_id = ''u1'', title = ''Nouns'',
                        description = None, study_set_row.created_at = 1, updated_at = 5\<rparr>],
         flashcards = [\<lparr>flashcard_row.id = ''c1'', study_set_id = ''s1'', term' = ''ir'',
                        definition' = ''to go'', position = 0, flashcard_row.created_at = 1\<rparr>],
         starred_flashcards = []\<rparr>" "''u1''"]
  by (simp add: fault_at_def getStudySets_def select_study_sets_by_user_def
        count_flashcards_of_set_def failed_def served_def counted_def or_zero_def or_empty_def
        study_set_row.defs StudySet.defs)

text \<open>
  The claim as stated fails when a count query fails: the set is still returned, with
  a count of 0, although it has a card.
\<close>

theorem getStudySets_keeps_sets_when_count_fails:
  "getStudySets [None, Some (RequestFailed ''offline'')]
      \<lparr>study_sets = [\<lparr>study_set_row.id = ''s1'', user_id = ''u1'', title = ''Verbs'',
                      description = None, study_set_row.created_at = 1, updated_at = 2\<rparr>],
       flashcards = [\<lparr>flashcard_row.id = ''c1'', study_set_id = ''s1'', term' = ''ir'',
                      definition' = ''to go'', position = 0, flashcard_row.created_at = 1\<rparr>],
       starred_flashcards = []\<rparr> ''u1''
   = [\<lparr>study_set_row.id = ''s1'', user_id = ''u1'', title = ''Verbs'', description = None,
       study_set_row.created_at = 1, updated_at = 2, flashcard_count = Some 0\<rparr>]"
  by (simp add: fault_at_def getStudySets_def select_study_sets_by_user_def
        count_flashcards_of_set_def failed_def served_def or_zero_def or_empty_def
        study_set_row.defs StudySet.defs)

subsection \<open>getFlashcards\<close>

lemma getFlashcards_marked:
  assumes "fault_at fs 0 = None" "x = Some u" "u \<noteq> []"
  shows "getFlashcards fs d s x =
    map (\<lambda>card. flashcard_row.extend card (Flashcard.fields (Some
            (fault_at fs 1 = None \<and> starred d u (flashcard_row.id card)))))
      (sort_key position (filter (\<lambda>c. study_set_id c = s) (flashcards d)))"
proof (cases "fault_at fs 1")
  case None
  have "\<And>i. (i \<in> flashcard_id ` {r \<in> set (starred_flashcards d). star_user_id r = u})
            = ((u, i) \<in> set (starred_flashcards d))"
    by force
  then show ?thesis
    using assms None
    by (simp add: getFlashcards_def select_flashcards_of_set_def select_starred_of_user_def
          served_def truthy_def or_empty_def starred_def)
next
  case (Some e)
  then show ?thesis
    using assms
    by (simp add: getFlashcards_def select_flashcards_of_set_def select_starred_of_user_def
          served_def failed_def truthy_def or_empty_def)
qed

lemma getFlashcards_unmarked:
  assumes "fault_at fs 0 = None" "x = None \<or> x = Some []"
  shows "getFlashcards fs d s x =
    map (\<lambda>card. flashcard_row.extend card (Flashcard.fields None))
      (sort_key position (filter (\<lambda>c. study_set_id c = s) (flashcards d)))"
  using assms
  by (auto simp add: getFlashcards_def select_flashcards_of_set_def served_def truthy_def
        or_empty_def)

lemma truncate_extend_flashcard:
  "flashcard_row.truncate (flashcard_row.extend r m) = r"
  by (simp add: flashcard_row.defs)

lemma getFlashcards_rows:
  assumes "fault_at fs 0 = None"
  shows "map flashcard_row.truncate (getFlashcards fs d s x)
           = sort_key position (filter (\<lambda>c. study_set_id c = s) (flashcards d))"
proof (cases "x = None \<or> x = Some []")
  case True
  show ?thesis
    unfolding getFlashcards_unmarked [OF assms True]
    by (simp add: truncate_extend_flashcard o_def)
next
  case False
  then obtain u where "x = Some u" "u \<noteq> []" by auto
  then show ?thesis
    unfolding getFlashcards_marked [OF assms \<open>x = Some u\<close> \<open>u \<noteq> []\<close>]
    by (simp add: truncate_extend_flashcard o_def)
qed

lemma position_truncate: "position (flashcard_row.truncate c) = position c"
  by (simp add: flashcard_row.defs)

lemma getFlashcards_sorted:
  assumes "fault_at fs 0 = None"
  shows "sorted (map position (getFlashcards fs d s x))"
proof -
  have "map position (getFlashcards fs d s x)
          = map position (map flashcard_row.truncate (getFlashcards fs d s x))"
    by (simp add: position_truncate o_def)
  then show ?thesis
    unfolding getFlashcards_rows [OF assms] by simp
qed

text \<open>
  C5, as amended. When the request of the cards is served, \<open>getFlashcards\<close> returns
  exactly the cards of the set, by \<open>position\<close> ascending. With a user id that is not
  the empty string, and the request of the starred rows served, \<open>is_starred\<close> of each
  card says whether its id is among the ids of the cards starred by the user. With
  no user id, or the empty string, \<open>is_starred\<close> is absent on every card.
\<close>

theorem getFlashcards_outcomes:
  "fault_at fs 0 = None \<longrightarrow>
     mset (map flashcard_row.truncate (getFlashcards fs d s x))
       = mset (filter (\<lambda>c. study_set_id c = s) (flashcards d))
     \<and> sorted (map position (getFlashcards fs d s x))
     \<and> (\<forall>u. x = Some u \<and> u \<noteq> [] \<and> fault_at fs 1 = None \<longrightarrow>
           (\<forall>c \<in> set (getFlashcards fs d s x).
              is_starred c = Some (flashcard_row.id c
                 \<in> flashcard_id ` {r \<in> set (starred_flashcards d). star_user_id r = u})))
     \<and> (x = None \<or> x = Some [] \<longrightarrow>
           (\<forall>c \<in> set (getFlashcards fs d s x). is_starred c = None))"
proof (intro conjI impI allI)
  assume ok: "fault_at fs 0 = None"
  show "mset (map flashcard_row.truncate (getFlashcards fs d s x))
       = mset (filter (\<lambda>c. study_set_id c = s) (flashcards d))"
    unfolding getFlashcards_rows [OF ok] by simp
  show "sorted (map position (getFlashcards fs d s x))"
    using ok by (rule getFlashcards_sorted)
  show "\<forall>c \<in> set (getFlashcards fs d s x).
              is_starred c = Some (flashcard_row.id c
                 \<in> flashcard_id ` {r \<in> set (starred_flashcards d). star_user_id r = u})"
    if a: "x = Some u \<and> u \<noteq> [] \<and> fault_at fs 1 = None" for u
  proof -
    have "\<And>i. (i \<in> flashcard_id ` {r \<in> set (starred_flashcards d). star_user_id r = u})
            = starred d u i"
      unfolding starred_def by force
    then show ?thesis
      using a getFlashcards_marked [OF ok, of x u d s]
      by (auto simp add: flashcard_row.defs Flashcard.defs)
  qed
  show "\<forall>c \<in> set (getFlashcards fs d s x). is_starred c = None"
    if a: "x = None \<or> x = Some []"
    unfolding getFlashcards_unmarked [OF ok a]
    by (auto simp add: flashcard_row.defs Flashcard.defs)
qed

theorem getFlashcards_outcomes_witness:
  "map (\<lambda>c. (flashcard_row.id c, is_starred c))
     (getFlashcards []
        \<lparr>study_sets = [],
         flashcards = [\<lparr>flashcard_row.id = ''c1'', study_set_id = ''s1'', term' = ''ir'',
                        definition' = ''to go'', position = 1, flashcard_row.created_at = 1\<rparr>,
                      \<lparr>flashcard_row.id = ''c0'', study_set_id = ''s1'', term' = ''ser'',
                        definition' = ''to be'', position = 0, flashcard_row.created_at = 1\<rparr>],
         starred_flashcards = [(''u1'', ''c1'')]\<rparr> ''s1'' (Some ''u1''))
     = [(''c0'', Some False), (''c1'', Some True)]
   \<and> map (\<lambda>c. (flashcard_row.id c, is_starred c))
     (getFlashcards []
        \<lparr>study_sets = [],
         flashcards = [\<lparr>flashcard_row.id = ''c1'', study_set_id = ''s1'', term' = ''ir'',
                        definition' = ''to go'', position = 1, flashcard_row.created_at = 1\<rparr>,
                      \<lparr>flashcard_row.id = ''c0'', study_set_id = ''s1'', term' = ''ser'',
                        definition' = ''to be'', position = 0, flashcard_row.created_at = 1\<rparr>],
         starred_flashcards = [(''u1'', ''c1'')]\<rparr> ''s1'' None)
     = [(''c0'', None), (''c1'', None)]"
  using getFlashcards_outcomes [of "[]"
        "\<lparr>study_sets = [],
         flashcards = [\<lparr>flashcard_row.id = ''c1'', study_set_id = ''s1'', term' = ''ir'',
                        definition' = ''to go'', position = 1, flashcard_row.created_at = 1\<rparr>,
                      \<lparr>flashcard_row.id = ''c0'', study_set_id = ''s1'', term' = ''ser'',
                        definition' = ''to be'', position = 0, flashcard_row.created_at = 1\<rparr>],
         starred_flashcards = [(''u1'', ''c1'')]\<rparr>" "''s1''" "Some ''u1''"]
    getFlashcards_outcomes [of "[]"
        "\<lparr>study_sets = [],
         flashcards = [\<lparr>flashcard_row.id = ''c1'', study_set_id = ''s1'', term' = ''ir'',
                        definition' = ''to go'', position = 1, flashcard_row.created_at = 1\<rparr>,
                      \<lparr>flashcard_row.id = ''c0'', study_set_id = ''s1'', term' = ''ser'',
                        definition' = ''to be'', position = 0, flashcard_row.created_at = 1\<rparr>],
         starred_flashcards = [(''u1'', ''c1'')]\<rparr>" "''s1''" "None"]
  by (simp add: fault_at_def getFlashcards_def select_flashcards_of_set_def
        select_starred_of_user_def served_def truthy_def or_empty_def
        flashcard_row.defs Flashcard.defs)

text \<open>
  The claim as stated fails for the empty string as user id: it is falsy, no starred
  rows are requested and \<open>is_starred\<close> stays absent.
\<close>

theorem getFlashcards_empty_user_unmarked:
  "map is_starred
     (getFlashcards []
        \<lparr>study_sets = [],
         flashcards = [\<lparr>flashcard_row.id = ''c1'', study_set_id = ''s1'', term' = ''ir'',
                        definition' = ''to go'', position = 0, flashcard_row.created_at = 1\<rparr>],
         starred_flashcards = []\<rparr> ''s1'' (Some []))
     = [None]"
  by (simp add: fault_at_def getFlashcards_def select_flashcards_of_set_def
        served_def truthy_def flashcard_row.defs Flashcard.defs)

text \<open>
  C9. With a user id (not the empty string) and the cards served, a failure of the
  request of the starred rows is not looked at: \<open>getFlashcards\<close> still returns all cards
  of the set, in order, each with \<open>is_starred\<close> false.
\<close>

theorem getFlashcards_second_query_failed:
  assumes "x = Some u" and "u \<noteq> []"
      and "fault_at fs 0 = None" and "fault_at fs 1 = Some e"
  shows "mset (map flashcard_row.truncate (getFlashcards fs d s x))
           = mset (filter (\<lambda>c. study_set_id c = s) (flashcards d))
       \<and> length (getFlashcards fs d s x)
           = length (filter (\<lambda>c. study_set_id c = s) (flashcards d))
       \<and> sorted (map position (getFlashcards fs d s x))
       \<and> (\<forall>c \<in> set (getFlashcards fs d s x). is_starred c = Some False)"
proof (intro conjI)
  show "mset (map flashcard_row.truncate (getFlashcards fs d s x))
           = mset (filter (\<lambda>c. study_set_id c = s) (flashcards d))"
    unfolding getFlashcards_rows [OF assms(3)] by simp
  show "length (getFlashcards fs d s x)
           = length (filter (\<lambda>c. study_set_id c = s) (flashcards d))"
    unfolding getFlashcards_marked [OF assms(3,1,2)] by simp
  show "sorted (map position (getFlashcards fs d s x))"
    using assms(3) by (rule getFlashcards_sorted)
  show "\<forall>c \<in> set (getFlashcards fs d s x). is_starred c = Some False"
    unfolding getFlashcards_marked [OF assms(3,1,2)]
    using assms(4) by (auto simp add: flashcard_row.defs Flashcard.defs)
qed

theorem getFlashcards_second_query_failed_witness:
  "map (\<lambda>c. (flashcard_row.id c, is_starred c))
     (getFlashcards [None, Some (RequestFailed ''offline'')]
        \<lparr>study_sets = [],
         flashcards = [\<lparr>flashcard_row.id = ''c1'', study_set_id = ''s1'', term' = ''ir'',
                        definition' = ''to go'', position = 1, flashcard_row.created_at = 1\<rparr>,
                      \<lparr>flashcard_row.id = ''c0'', study_set_id = ''s1'', term' = ''ser'',
                        definition' = ''to be'', position = 0, flashcard_row.created_at = 1\<rparr>],
         starred_flashcards = [(''u1'', ''c1'')]\<rparr> ''s1'' (Some ''u1''))
     = [(''c0'', Some False), (''c1'', Some False)]"
  using getFlashcards_second_query_failed [of "Some ''u1''" "''u1''"
        "[None, Some (RequestFailed ''offline'')]" "RequestFailed ''offline''"
        "\<lparr>study_sets = [],
         flashcards = [\<lparr>flashcard_row.id = ''c1'', study_set_id = ''s1'', term' = ''ir'',
                        definition' = ''to go'', position = 1, flashcard_row.created_at = 1\<rparr>,
                      \<lparr>flashcard_row.id = ''c0'', study_set_id = ''s1'', term' = ''ser'',
                        definition' = ''to be'', position = 0, flashcard_row.created_at = 1\<rparr>],
         starred_flashcards = [(''u1'', ''c1'')]\<rparr>" "''s1''"]
  by (simp add: fault_at_def getFlashcards_def select_flashcards_of_set_def
        select_starred_of_user_def served_def failed_def truthy_def or_empty_def
        flashcard_row.defs Flashcard.defs)

end
